theory Spec2Isabelle
  imports Complex_Main "HOL-Library.List_Lexorder" "HOL-Library.Char_ord"
begin

section \<open>Game aggregate (src/models/GameSupabase.ts, src/types/index.ts)\<close>

text \<open>
  The \<open>Game\<close> interface of \<open>src/types/index.ts\<close>, without the generated columns
  (\<open>id\<close> is the key of the table, \<open>createdAt\<close>/\<open>updatedAt\<close> are written by the
  database). Counts are the integer columns \<open>current_players\<close> and \<open>max_players\<close>.
  A join request is the record \<open>{userId, requestedAt, status}\<close> that \<open>joinGame\<close> and
  \<open>createJoinRequest\<close> build.
\<close>

datatype game_status = Open | Full | In_progress | Completed | Cancelled

datatype skill_level = Beginner | Intermediate | Advanced | All

datatype user_role = User | Owner | Admin

record JoinRequest =
  userId :: string
  requestedAt :: string
  requestStatus :: string

record Game =
  hostId :: string
  turfId :: string
  date :: string
  startTime :: string
  endTime :: string
  sport :: string
  format :: string
  skillLevel :: skill_level
  currentPlayers :: int
  maxPlayers :: int
  costPerPerson :: rat
  description :: "string option"
  gameNotes :: "string option"
  isPrivate :: bool
  joinRequests :: "JoinRequest list"
  confirmedPlayers :: "string list"
  status :: game_status

text \<open>The \<open>games\<close> table: \<open>findById\<close> is the lookup, \<open>null\<close> is \<open>None\<close>.\<close>

type_synonym games = "string \<Rightarrow> Game option"

text \<open>The \<open>{ success, message }\<close> object every model operation resolves to.\<close>

record result =
  success :: bool
  message :: string

definition failed :: "string \<Rightarrow> result" where
  "failed m = \<lparr>success = False, message = m\<rparr>"

definition succeeded :: "string \<Rightarrow> result" where
  "succeeded m = \<lparr>success = True, message = m\<rparr>"

text \<open>\<open>Array.prototype.findIndex\<close> (\<open>-1\<close> is \<open>None\<close>) and \<open>splice(i, 1)\<close>.\<close>

fun findIndex :: "('a \<Rightarrow> bool) \<Rightarrow> 'a list \<Rightarrow> nat option" where
  "findIndex P [] = None"
| "findIndex P (x # xs) =
     (if P x then Some 0 else map_option Suc (findIndex P xs))"

definition splice1 :: "nat \<Rightarrow> 'a list \<Rightarrow> 'a list" where
  "splice1 i xs = take i xs @ drop (Suc i) xs"

text \<open>
  \<open>joinGame\<close>, GameSupabase.ts lines 138-186. The first argument is the reading of
  the clock that \<open>new Date().toISOString()\<close> returns in the private branch.
\<close>

definition joinGame :: "string \<Rightarrow> games \<Rightarrow> string \<Rightarrow> string \<Rightarrow> result \<times> games" where
  "joinGame now db gameId uid =
     (case db gameId of
        None \<Rightarrow> (failed ''Game not found'', db)
      | Some game \<Rightarrow>
          if status game \<noteq> Open then (failed ''Game is not open for joining'', db)
          else if currentPlayers game \<ge> maxPlayers game then (failed ''Game is full'', db)
          else if uid \<in> set (confirmedPlayers game) then (failed ''Already joined this game'', db)
          else if list_ex (\<lambda>req. userId req = uid) (joinRequests game)
            then (failed ''Join request already pending'', db)
          else if \<not> isPrivate game then
            (let updatedConfirmedPlayers = confirmedPlayers game @ [uid];
                 newStatus = (if int (length updatedConfirmedPlayers) \<ge> maxPlayers game
                              then Full else Open)
             in (succeeded ''Successfully joined the game'',
                 db(gameId \<mapsto> game\<lparr>confirmedPlayers := updatedConfirmedPlayers,
                                    currentPlayers := int (length updatedConfirmedPlayers) + 1,
                                    status := newStatus\<rparr>)))
          else
            (let updatedJoinRequests = joinRequests game @
                   [\<lparr>userId = uid, requestedAt = now, requestStatus = ''pending''\<rparr>]
             in (succeeded ''Join request sent to game host'',
                 db(gameId \<mapsto> game\<lparr>joinRequests := updatedJoinRequests\<rparr>))))"

text \<open>\<open>leaveGame\<close>, GameSupabase.ts lines 188-212.\<close>

definition leaveGame :: "games \<Rightarrow> string \<Rightarrow> string \<Rightarrow> result \<times> games" where
  "leaveGame db gameId uid =
     (case db gameId of
        None \<Rightarrow> (failed ''Game not found'', db)
      | Some game \<Rightarrow>
          (let updatedConfirmedPlayers = filter (\<lambda>i. i \<noteq> uid) (confirmedPlayers game);
               updatedJoinRequests = filter (\<lambda>req. userId req \<noteq> uid) (joinRequests game)
           in if length updatedConfirmedPlayers = length (confirmedPlayers game) \<and>
                 length updatedJoinRequests = length (joinRequests game)
              then (failed ''Not part of this game'', db)
              else
                (let newStatus = (if int (length updatedConfirmedPlayers) < maxPlayers game
                                  then Open else status game)
                 in (succeeded ''Successfully left the game'',
                     db(gameId \<mapsto> game\<lparr>confirmedPlayers := updatedConfirmedPlayers,
                                        joinRequests := updatedJoinRequests,
                                        currentPlayers := int (length updatedConfirmedPlayers) + 1,
                                        status := newStatus\<rparr>)))))"

text \<open>\<open>createJoinRequest\<close>, GameSupabase.ts lines 214-247.\<close>

definition createJoinRequest :: "string \<Rightarrow> games \<Rightarrow> string \<Rightarrow> string \<Rightarrow> result \<times> games" where
  "createJoinRequest now db gameId uid =
     (case db gameId of
        None \<Rightarrow> (failed ''Game not found'', db)
      | Some game \<Rightarrow>
          if hostId game = uid then (failed ''You cannot join your own game'', db)
          else if uid \<in> set (confirmedPlayers game) then (failed ''Already joined this game'', db)
          else if list_ex (\<lambda>req. userId req = uid) (joinRequests game)
            then (failed ''Join request already pending'', db)
          else
            (succeeded ''Join request sent successfully'',
             db(gameId \<mapsto> game\<lparr>joinRequests := joinRequests game @
                   [\<lparr>userId = uid, requestedAt = now, requestStatus = ''pending''\<rparr>]\<rparr>)))"

text \<open>\<open>acceptRequest\<close>, GameSupabase.ts lines 261-290: the status column is not written.\<close>

definition acceptRequest :: "games \<Rightarrow> string \<Rightarrow> string \<Rightarrow> result \<times> games" where
  "acceptRequest db gameId uid =
     (case db gameId of
        None \<Rightarrow> (failed ''Game not found'', db)
      | Some game \<Rightarrow>
          (case findIndex (\<lambda>req. userId req = uid) (joinRequests game) of
             None \<Rightarrow> (failed ''Join request not found'', db)
           | Some requestIndex \<Rightarrow>
               (let joinRequests' = splice1 requestIndex (joinRequests game);
                    confirmedPlayers' = confirmedPlayers game @ [uid]
                in (succeeded ''Player request accepted'',
                    db(gameId \<mapsto> game\<lparr>joinRequests := joinRequests',
                                       confirmedPlayers := confirmedPlayers',
                                       currentPlayers := int (length confirmedPlayers') + 1\<rparr>)))))"

text \<open>\<open>rejectRequest\<close>, GameSupabase.ts lines 292-315.\<close>

definition rejectRequest :: "games \<Rightarrow> string \<Rightarrow> string \<Rightarrow> result \<times> games" where
  "rejectRequest db gameId uid =
     (case db gameId of
        None \<Rightarrow> (failed ''Game not found'', db)
      | Some game \<Rightarrow>
          (case findIndex (\<lambda>req. userId req = uid) (joinRequests game) of
             None \<Rightarrow> (failed ''Join request not found'', db)
           | Some requestIndex \<Rightarrow>
               (succeeded ''Player request rejected'',
                db(gameId \<mapsto> game\<lparr>joinRequests := splice1 requestIndex (joinRequests game)\<rparr>))))"

text \<open>\<open>respondToJoinRequest\<close>, GameSupabase.ts lines 317-356.\<close>

definition respondToJoinRequest ::
    "games \<Rightarrow> string \<Rightarrow> string \<Rightarrow> string \<Rightarrow> bool \<Rightarrow> result \<times> games" where
  "respondToJoinRequest db gameId host uid approve =
     (case db gameId of
        None \<Rightarrow> (failed ''Game not found'', db)
      | Some game \<Rightarrow>
          if hostId game \<noteq> host then (failed ''Only the host can approve join requests'', db)
          else if \<not> list_ex (\<lambda>req. userId req = uid) (joinRequests game)
            then (failed ''No pending join request from this user'', db)
          else
            (let updatedJoinRequests = filter (\<lambda>req. userId req \<noteq> uid) (joinRequests game)
             in if approve then
                  (if currentPlayers game \<ge> maxPlayers game then (failed ''Game is full'', db)
                   else
                     (let updatedConfirmedPlayers = confirmedPlayers game @ [uid];
                          newStatus = (if int (length updatedConfirmedPlayers) \<ge> maxPlayers game
                                       then Full else Open)
                      in (succeeded ''Player approved and added to the game'',
                          db(gameId \<mapsto> game\<lparr>joinRequests := updatedJoinRequests,
                                confirmedPlayers := updatedConfirmedPlayers,
                                currentPlayers := int (length updatedConfirmedPlayers) + 1,
                                status := newStatus\<rparr>))))
                else
                  (succeeded ''Join request declined'',
                   db(gameId \<mapsto> game\<lparr>joinRequests := updatedJoinRequests\<rparr>))))"

section \<open>Game routes (src/routes/games.ts)\<close>

text \<open>
  The JSON answer of a route: the HTTP status, the \<open>success\<close> flag and the
  \<open>error\<close> or \<open>message\<close> text.
\<close>

record response =
  httpStatus :: nat
  ok :: bool
  bodyText :: string

text \<open>
  \<open>Partial<Omit<Game, 'id' | 'createdAt' | 'updatedAt'>>\<close>, restricted to the fields
  that \<open>GameModel.update\<close> (src/types/index.ts lines 351-378) reads; an absent field
  is \<open>None\<close>.
\<close>

record GameUpdates =
  u_date :: "string option"
  u_startTime :: "string option"
  u_endTime :: "string option"
  u_sport :: "string option"
  u_format :: "string option"
  u_skillLevel :: "skill_level option"
  u_currentPlayers :: "int option"
  u_maxPlayers :: "int option"
  u_costPerPerson :: "rat option"
  u_description :: "string option"
  u_notes :: "string option"
  u_isPrivate :: "bool option"
  u_joinRequests :: "JoinRequest list option"
  u_confirmedPlayers :: "string list option"
  u_status :: "game_status option"

text \<open>
  \<open>if (updates.f) updateData.f = updates.f\<close> writes a field that is present and
  truthy; \<open>if (updates.f !== undefined)\<close> writes a field that is present.
\<close>

definition ifTruthy :: "('a \<Rightarrow> bool) \<Rightarrow> 'a option \<Rightarrow> 'a \<Rightarrow> 'a" where
  "ifTruthy truthy u old = (case u of None \<Rightarrow> old | Some v \<Rightarrow> if truthy v then v else old)"

definition ifDefined :: "'a option \<Rightarrow> 'a \<Rightarrow> 'a" where
  "ifDefined u old = (case u of None \<Rightarrow> old | Some v \<Rightarrow> v)"

definition updateFields :: "GameUpdates \<Rightarrow> Game \<Rightarrow> Game" where
  "updateFields updates game =
     game\<lparr>date := ifTruthy (\<lambda>v. v \<noteq> []) (u_date updates) (date game),
          startTime := ifTruthy (\<lambda>v. v \<noteq> []) (u_startTime updates) (startTime game),
          endTime := ifTruthy (\<lambda>v. v \<noteq> []) (u_endTime updates) (endTime game),
          sport := ifTruthy (\<lambda>v. v \<noteq> []) (u_sport updates) (sport game),
          format := ifTruthy (\<lambda>v. v \<noteq> []) (u_format updates) (format game),
          skillLevel := ifDefined (u_skillLevel updates) (skillLevel game),
          currentPlayers := ifDefined (u_currentPlayers updates) (currentPlayers game),
          maxPlayers := ifTruthy (\<lambda>v. v \<noteq> 0) (u_maxPlayers updates) (maxPlayers game),
          costPerPerson := ifDefined (u_costPerPerson updates) (costPerPerson game),
          description := (case u_description updates of None \<Rightarrow> description game
                          | Some v \<Rightarrow> Some v),
          gameNotes := (case u_notes updates of None \<Rightarrow> gameNotes game | Some v \<Rightarrow> Some v),
          isPrivate := ifDefined (u_isPrivate updates) (isPrivate game),
          joinRequests := ifDefined (u_joinRequests updates) (joinRequests game),
          confirmedPlayers := ifDefined (u_confirmedPlayers updates) (confirmedPlayers game),
          status := ifDefined (u_status updates) (status game)\<rparr>"

text \<open>\<open>GameModel.update\<close>: \<open>UPDATE games SET ... WHERE id = ?\<close>.\<close>

definition update :: "games \<Rightarrow> string \<Rightarrow> GameUpdates \<Rightarrow> games" where
  "update db gameId updates =
     (case db gameId of None \<Rightarrow> db
      | Some game \<Rightarrow> db(gameId \<mapsto> updateFields updates game))"

definition noUpdates :: GameUpdates where
  "noUpdates = \<lparr>u_date = None, u_startTime = None, u_endTime = None, u_sport = None,
     u_format = None, u_skillLevel = None, u_currentPlayers = None, u_maxPlayers = None,
     u_costPerPerson = None, u_description = None, u_notes = None, u_isPrivate = None,
     u_joinRequests = None, u_confirmedPlayers = None, u_status = None\<rparr>"

text \<open>
  \<open>PUT /:id\<close>, routes/games.ts lines 246-286. \<open>reqUser\<close> and \<open>reqRole\<close> are
  \<open>req.user.id\<close> and \<open>req.user.role\<close>, \<open>body\<close> is \<open>req.body\<close>.
\<close>

definition putGame :: "games \<Rightarrow> string \<Rightarrow> string \<Rightarrow> user_role \<Rightarrow> GameUpdates \<Rightarrow> response \<times> games" where
  "putGame db gameId reqUser reqRole body =
     (case db gameId of
        None \<Rightarrow> (\<lparr>httpStatus = 404, ok = False, bodyText = ''Game not found''\<rparr>, db)
      | Some game \<Rightarrow>
          if hostId game \<noteq> reqUser \<and> reqRole \<noteq> Admin
            then (\<lparr>httpStatus = 403, ok = False,
                   bodyText = ''Only the host can update this game''\<rparr>, db)
          else if status game = In_progress \<or> status game = Completed
            then (\<lparr>httpStatus = 400, ok = False,
                   bodyText = ''Cannot update game that has started or completed''\<rparr>, db)
          else (\<lparr>httpStatus = 200, ok = True, bodyText = ''Game updated successfully''\<rparr>,
                update db gameId body))"

text \<open>\<open>DELETE /:id\<close>, routes/games.ts lines 288-328.\<close>

definition deleteGame :: "games \<Rightarrow> string \<Rightarrow> string \<Rightarrow> user_role \<Rightarrow> response \<times> games" where
  "deleteGame db gameId reqUser reqRole =
     (case db gameId of
        None \<Rightarrow> (\<lparr>httpStatus = 404, ok = False, bodyText = ''Game not found''\<rparr>, db)
      | Some game \<Rightarrow>
          if hostId game \<noteq> reqUser \<and> reqRole \<noteq> Admin
            then (\<lparr>httpStatus = 403, ok = False,
                   bodyText = ''Only the host can cancel this game''\<rparr>, db)
          else if status game = In_progress \<or> status game = Completed
            then (\<lparr>httpStatus = 400, ok = False,
                   bodyText = ''Cannot cancel game that has started or completed''\<rparr>, db)
          else (\<lparr>httpStatus = 200, ok = True, bodyText = ''Game cancelled successfully''\<rparr>,
                update db gameId (noUpdates\<lparr>u_status := Some Cancelled\<rparr>)))"

section \<open>Bookings (models/Booking.ts, models/BookingSupabase.ts)\<close>

datatype booking_status =
  Booking_pending | Booking_confirmed | Booking_cancelled | Booking_completed

datatype payment_status = Payment_pending | Paid | Refunded

datatype payment_method = Cash | Online | Wallet

text \<open>
  A row of the \<open>bookings\<close> table, with its column names. \<open>start_time\<close> and
  \<open>end_time\<close> are \<open>TEXT\<close> columns holding \<open>HH:MM\<close>: SQLite and JavaScript compare
  them as strings, which is the lexicographic order on \<open>string\<close>.
\<close>

record Booking =
  booking_id :: string
  user_id :: string
  turf_id :: string
  booking_date :: string
  start_time :: string
  end_time :: string
  total_players :: int
  total_amount :: rat
  booking_status :: booking_status
  booking_notes :: "string option"
  payment_status :: payment_status
  payment_method :: "payment_method option"

definition activeOn :: "string \<Rightarrow> string \<Rightarrow> Booking \<Rightarrow> bool" where
  "activeOn turf d row =
     (turf_id row = turf \<and> booking_date row = d \<and>
      (booking_status row = Booking_pending \<or> booking_status row = Booking_confirmed))"

text \<open>
  \<open>checkAvailability\<close> of the SQLite model (lines 82-105), with the parameters bound
  in the order of \<open>params\<close>. \<open>if (excludeBookingId)\<close> holds for a non-empty string.
\<close>

definition checkAvailability ::
    "Booking list \<Rightarrow> string \<Rightarrow> string \<Rightarrow> string \<Rightarrow> string \<Rightarrow> string option \<Rightarrow> bool" where
  "checkAvailability rows turf d startT endT excludeBookingId =
     (let count = length (filter (\<lambda>row.
            activeOn turf d row \<and>
            ((start_time row < endT \<and> end_time row > startT) \<or>
             (start_time row < startT \<and> end_time row > endT) \<or>
             (start_time row \<ge> startT \<and> start_time row < endT)) \<and>
            (case excludeBookingId of
               None \<Rightarrow> True
             | Some x \<Rightarrow> if x \<noteq> [] then booking_id row \<noteq> x else True)) rows)
      in count = 0)"

text \<open>
  \<open>findConflictingBookings\<close> and \<open>checkAvailability\<close> of the Supabase model
  (lines 95-112); there is no \<open>excludeBookingId\<close>. Postgres compares the two
  \<open>TIME\<close> columns as times, which on \<open>HH:MM\<close> texts is the order of the strings.
\<close>

definition findConflictingBookings ::
    "Booking list \<Rightarrow> string \<Rightarrow> string \<Rightarrow> string \<Rightarrow> string \<Rightarrow> Booking list" where
  "findConflictingBookings rows turf d startT endT =
     filter (\<lambda>row.
        activeOn turf d row \<and>
        ((start_time row \<le> startT \<and> end_time row > startT) \<or>
         (start_time row < endT \<and> end_time row \<ge> endT) \<or>
         (start_time row \<ge> startT \<and> end_time row \<le> endT))) rows"

definition checkAvailability_supabase ::
    "Booking list \<Rightarrow> string \<Rightarrow> string \<Rightarrow> string \<Rightarrow> string \<Rightarrow> bool" where
  "checkAvailability_supabase rows turf d startT endT =
     (length (findConflictingBookings rows turf d startT endT) = 0)"

subsection \<open>Times and slots\<close>

definition isDigit :: "char \<Rightarrow> bool" where
  "isDigit c = (CHR ''0'' \<le> c \<and> c \<le> CHR ''9'')"

definition digitValue :: "char \<Rightarrow> nat" where
  "digitValue c = of_char c - 48"

text \<open>
  \<open>timeToMinutes\<close> on the strings that match \<open>/^\d{2}:\d{2}$/\<close>, the pattern of
  \<open>bookingCreateSchema\<close>; any other string is \<open>None\<close>.
\<close>

fun timeToMinutes :: "string \<Rightarrow> nat option" where
  "timeToMinutes [h1, h2, c, m1, m2] =
     (if isDigit h1 \<and> isDigit h2 \<and> c = CHR '':'' \<and> isDigit m1 \<and> isDigit m2
      then Some ((10 * digitValue h1 + digitValue h2) * 60 + (10 * digitValue m1 + digitValue m2))
      else None)"
| "timeToMinutes _ = None"

text \<open>\<open>Number.prototype.toString\<close> on a natural number, and \<open>padStart(2, '0')\<close>.\<close>

fun toString :: "nat \<Rightarrow> string" where
  "toString n =
     (if n < 10 then [char_of (48 + n)] else toString (n div 10) @ [char_of (48 + n mod 10)])"

definition padStart2 :: "string \<Rightarrow> string" where
  "padStart2 s = replicate (2 - length s) (CHR ''0'') @ s"

definition minutesToTime :: "nat \<Rightarrow> string" where
  "minutesToTime minutes =
     (let hours = minutes div 60; mins = minutes mod 60
      in padStart2 (toString hours) @ '':'' @ padStart2 (toString mins))"

text \<open>
  The \<open>while (current < end)\<close> loop of \<open>generateTimeSlots\<close> (SQLite model, lines
  199-212). It does not end when \<open>durationMinutes\<close> is 0, so not returning is
  \<open>None\<close>. A slot is the pair of the two times that the source joins with \<open>' - '\<close>
  and splits again in \<open>getAvailableSlots\<close>.
\<close>

partial_function (option) slotsLoop ::
    "nat \<Rightarrow> nat \<Rightarrow> nat \<Rightarrow> string list \<Rightarrow> string list option" where
  "slotsLoop current endMinutes durationMinutes slots =
     (if current < endMinutes
      then slotsLoop (current + durationMinutes) endMinutes durationMinutes
             (slots @ [minutesToTime current @ '' - '' @ minutesToTime (current + durationMinutes)])
      else Some slots)"

declare slotsLoop.simps [code]

definition generateTimeSlots :: "string \<Rightarrow> string \<Rightarrow> nat \<Rightarrow> string list option" where
  "generateTimeSlots startT endT durationMinutes =
     (case (timeToMinutes startT, timeToMinutes endT) of
        (Some current, Some endMinutes) \<Rightarrow> slotsLoop current endMinutes durationMinutes []
      | _ \<Rightarrow> Some [])"

text \<open>\<open>slot.split(' - ')[0]\<close>: the text before the first \<open>' - '\<close>.\<close>

fun slotStart :: "string \<Rightarrow> string" where
  "slotStart [] = []"
| "slotStart (c # cs) = (if take 3 (c # cs) = '' - '' then [] else c # slotStart cs)"

text \<open>\<open>getAvailableSlots\<close> of the SQLite model, lines 107-128.\<close>

definition getAvailableSlots :: "Booking list \<Rightarrow> string \<Rightarrow> string \<Rightarrow> string list option" where
  "getAvailableSlots rows turf d =
     (let bookedSlots = sort_key start_time (filter (activeOn turf d) rows)
      in map_option
           (filter (\<lambda>slot. \<not> list_ex (\<lambda>booking.
               slotStart slot \<ge> start_time booking \<and> slotStart slot < end_time booking)
             bookedSlots))
           (generateTimeSlots ''06:00'' ''23:00'' 60))"

text \<open>\<open>getAvailableSlots\<close> of the Supabase model, lines 114-150.\<close>

definition getAvailableSlots_supabase ::
    "Booking list \<Rightarrow> string \<Rightarrow> string \<Rightarrow> (string \<times> string) list" where
  "getAvailableSlots_supabase rows turf d =
     (let bookedSlots = map (\<lambda>booking. (start_time booking, end_time booking))
                          (sort_key start_time (filter (activeOn turf d) rows))
      in filter (\<lambda>(startT, endT). \<not> list_ex (\<lambda>(bookedStart, bookedEnd).
              (startT \<ge> bookedStart \<and> startT < bookedEnd) \<or>
              (endT > bookedStart \<and> endT \<le> bookedEnd) \<or>
              (startT \<le> bookedStart \<and> endT \<ge> bookedEnd)) bookedSlots)
           (map (\<lambda>hour. (padStart2 (toString hour) @ '':00'',
                         padStart2 (toString (hour + 1)) @ '':00'')) [6..<23]))"

section \<open>Creating a booking (routes/bookings.ts, middleware/validation.ts)\<close>

text \<open>The fields of a turf that the booking route reads.\<close>

record Turf =
  isActive :: bool
  pricePerHour :: rat
  pricePerHourWeekend :: "rat option"

text \<open>The body of \<open>POST /\<close>.\<close>

record BookingRequest =
  b_turfId :: string
  b_date :: string
  b_startTime :: string
  b_endTime :: string
  b_totalPlayers :: int
  b_notes :: "string option"
  b_paymentMethod :: "payment_method option"

text \<open>The pattern \<open>/^\d{4}-\d{2}-\d{2}$/\<close>.\<close>

fun matchesDate :: "string \<Rightarrow> bool" where
  "matchesDate [y1, y2, y3, y4, s1, m1, m2, s2, d1, d2] =
     (isDigit y1 \<and> isDigit y2 \<and> isDigit y3 \<and> isDigit y4 \<and> s1 = CHR ''-'' \<and>
      isDigit m1 \<and> isDigit m2 \<and> s2 = CHR ''-'' \<and> isDigit d1 \<and> isDigit d2)"
| "matchesDate _ = False"

text \<open>
  \<open>bookingCreateSchema\<close>, validation.ts lines 55-63. A Joi string is not empty;
  the two times match \<open>/^\d{2}:\d{2}$/\<close> exactly when \<open>timeToMinutes\<close> reads them.
\<close>

definition bookingCreateSchema :: "BookingRequest \<Rightarrow> bool" where
  "bookingCreateSchema body =
     (b_turfId body \<noteq> [] \<and> matchesDate (b_date body) \<and>
      timeToMinutes (b_startTime body) \<noteq> None \<and> timeToMinutes (b_endTime body) \<noteq> None \<and>
      1 \<le> b_totalPlayers body \<and> b_totalPlayers body \<le> 50 \<and>
      (case b_notes body of None \<Rightarrow> True | Some n \<Rightarrow> n \<noteq> [] \<and> length n \<le> 500))"

text \<open>
  Lines 110-122 of the \<open>POST /\<close> handler, which the specification calls
  \<open>computeTotalAmount\<close>. \<open>getDay\<close> is \<open>new Date(date).getDay()\<close> of the runtime
  (0 is Sunday, 6 is Saturday, \<open>None\<close> is \<open>NaN\<close> for an invalid date). Amounts
  are exact rationals; \<open>None\<close> is the \<open>NaN\<close> of a time that does not parse.
\<close>

definition isWeekend :: "(string \<Rightarrow> nat option) \<Rightarrow> string \<Rightarrow> bool" where
  "isWeekend getDay d = (getDay d = Some 0 \<or> getDay d = Some 6)"

definition hourlyRate :: "(string \<Rightarrow> nat option) \<Rightarrow> Turf \<Rightarrow> string \<Rightarrow> rat" where
  "hourlyRate getDay turf d =
     (case pricePerHourWeekend turf of
        Some weekendRate \<Rightarrow>
          if isWeekend getDay d \<and> weekendRate \<noteq> 0 then weekendRate else pricePerHour turf
      | None \<Rightarrow> pricePerHour turf)"

definition computeTotalAmount ::
    "(string \<Rightarrow> nat option) \<Rightarrow> Turf \<Rightarrow> string \<Rightarrow> string \<Rightarrow> string \<Rightarrow> rat option" where
  "computeTotalAmount getDay turf d startT endT =
     (case (timeToMinutes startT, timeToMinutes endT) of
        (Some startMinutes, Some endMinutes) \<Rightarrow>
          (let durationHours = (rat_of_int (int endMinutes - int startMinutes)) / 60
           in Some (durationHours * hourlyRate getDay turf d))
      | _ \<Rightarrow> None)"

text \<open>
  \<open>POST /\<close>, routes/bookings.ts lines 88-150, behind \<open>validate(bookingCreateSchema)\<close>.
  \<open>newId\<close> is the identifier that \<open>generateId\<close> draws, \<open>turfs\<close> is
  \<open>turfModel.findById\<close>, \<open>reqUser\<close> is \<open>req.user.id\<close>.
\<close>

definition postBooking ::
    "(string \<Rightarrow> nat option) \<Rightarrow> string \<Rightarrow> (string \<Rightarrow> Turf option) \<Rightarrow> Booking list \<Rightarrow>
     string \<Rightarrow> BookingRequest \<Rightarrow> response \<times> Booking list" where
  "postBooking getDay newId turfs rows reqUser body =
     (if \<not> bookingCreateSchema body
      then (\<lparr>httpStatus = 400, ok = False, bodyText = ''Validation error''\<rparr>, rows)
      else
        (case turfs (b_turfId body) of
           None \<Rightarrow> (\<lparr>httpStatus = 404, ok = False,
                      bodyText = ''Turf not found or inactive''\<rparr>, rows)
         | Some turf \<Rightarrow>
             if \<not> isActive turf
               then (\<lparr>httpStatus = 404, ok = False,
                      bodyText = ''Turf not found or inactive''\<rparr>, rows)
             else if \<not> checkAvailability rows (b_turfId body) (b_date body)
                        (b_startTime body) (b_endTime body) None
               then (\<lparr>httpStatus = 409, ok = False,
                      bodyText = ''Time slot not available''\<rparr>, rows)
             else
               (case computeTotalAmount getDay turf (b_date body)
                       (b_startTime body) (b_endTime body) of
                  None \<Rightarrow> (\<lparr>httpStatus = 500, ok = False,
                             bodyText = ''Internal server error''\<rparr>, rows)
                | Some totalAmount \<Rightarrow>
                    (\<lparr>httpStatus = 201, ok = True,
                      bodyText = ''Booking created successfully''\<rparr>,
                     rows @ [\<lparr>booking_id = newId, user_id = reqUser,
                              turf_id = b_turfId body, booking_date = b_date body,
                              start_time = b_startTime body, end_time = b_endTime body,
                              total_players = b_totalPlayers body,
                              total_amount = totalAmount,
                              booking_status = Booking_pending,
                              booking_notes = b_notes body,
                              payment_status = Payment_pending,
                              payment_method = b_paymentMethod body\<rparr>]))))"

section \<open>Derived notions used in the statements\<close>

text \<open>The cached count agrees with the roster: the host is counted once.\<close>

definition countsHost :: "Game \<Rightarrow> bool" where
  "countsHost game = (currentPlayers game = int (length (confirmedPlayers game)) + 1)"


text \<open>The overlap test of two half-open intervals \<open>[a, b)\<close> and \<open>[c, d)\<close>.\<close>

definition overlaps :: "string \<Rightarrow> string \<Rightarrow> string \<Rightarrow> string \<Rightarrow> bool" where
  "overlaps a b c d = (a < d \<and> c < b)"

text \<open>The capacity invariant: the roster leaves the host's seat free.\<close>

definition withinCapacity :: "Game \<Rightarrow> bool" where
  "withinCapacity game = (int (length (confirmedPlayers game)) \<le> maxPlayers game - 1)"

section \<open>Sample data\<close>

definition sampleGame :: Game where
  "sampleGame = \<lparr>hostId = ''host'', turfId = ''turf1'', date = ''2025-09-07'',
     startTime = ''18:00'', endTime = ''19:00'', sport = ''Football'', format = ''5v5'',
     skillLevel = All, currentPlayers = 1, maxPlayers = 3, costPerPerson = 100,
     description = None, gameNotes = None, isPrivate = False, joinRequests = [],
     confirmedPlayers = [], status = Open\<rparr>"

definition pendingRequest :: "string \<Rightarrow> string \<Rightarrow> JoinRequest" where
  "pendingRequest uid time = \<lparr>userId = uid, requestedAt = time, requestStatus = ''pending''\<rparr>"

definition oneGame :: "Game \<Rightarrow> games" where
  "oneGame game = Map.empty(''g1'' \<mapsto> game)"

text \<open>A game of two seats with a request from \<open>b\<close> waiting.\<close>

definition requestedGame :: Game where
  "requestedGame = sampleGame\<lparr>maxPlayers := 2, joinRequests := [pendingRequest ''b'' ''t0'']\<rparr>"

text \<open>A game of three seats with the host and one confirmed player.\<close>

definition almostFullGame :: Game where
  "almostFullGame = sampleGame\<lparr>currentPlayers := 2, confirmedPlayers := [''a'']\<rparr>"

definition privateGame :: Game where
  "privateGame = sampleGame\<lparr>isPrivate := True\<rparr>"

text \<open>A completed game with one confirmed player and one waiting request.\<close>

definition finishedGame :: Game where
  "finishedGame = sampleGame\<lparr>status := Completed, currentPlayers := 2,
     confirmedPlayers := [''a''], joinRequests := [pendingRequest ''b'' ''t0'']\<rparr>"

definition sampleBooking :: "string \<Rightarrow> string \<Rightarrow> string \<Rightarrow> booking_status \<Rightarrow> Booking" where
  "sampleBooking bid startT endT st = \<lparr>booking_id = bid, user_id = ''u1'', turf_id = ''turf1'',
     booking_date = ''2025-09-07'', start_time = startT, end_time = endT, total_players = 10,
     total_amount = 800, booking_status = st, booking_notes = None,
     payment_status = Payment_pending, payment_method = None\<rparr>"

definition sampleTurf :: Turf where
  "sampleTurf = \<lparr>isActive = True, pricePerHour = 800, pricePerHourWeekend = Some 1000\<rparr>"

definition sampleTurfs :: "string \<Rightarrow> Turf option" where
  "sampleTurfs = Map.empty(''turf1'' \<mapsto> sampleTurf)"

definition sampleRequest :: "string \<Rightarrow> string \<Rightarrow> BookingRequest" where
  "sampleRequest startT endT = \<lparr>b_turfId = ''turf1'', b_date = ''2025-09-07'',
     b_startTime = startT, b_endTime = endT, b_totalPlayers = 10, b_notes = None,
     b_paymentMethod = None\<rparr>"

text \<open>The calendar on two dates: 7 September 2025 is a Sunday, the 8th a Monday.\<close>

definition sampleGetDay :: "string \<Rightarrow> nat option" where
  "sampleGetDay d =
     (if d = ''2025-09-07'' then Some 0 else if d = ''2025-09-08'' then Some 1 else None)"

section \<open>Unfolding rules for the sample data\<close>

lemmas sample_defs = oneGame_def sampleGame_def pendingRequest_def requestedGame_def
  almostFullGame_def privateGame_def finishedGame_def

lemmas game_ops = joinGame_def leaveGame_def acceptRequest_def respondToJoinRequest_def
  rejectRequest_def createJoinRequest_def failed_def succeeded_def

lemmas booking_defs = sampleBooking_def sampleRequest_def sampleTurf_def sampleTurfs_def
  sampleGetDay_def

section \<open>Capacity\<close>

text \<open>
  On a game whose cached count agrees with its roster, \<open>joinGame\<close> and
  \<open>respondToJoinRequest\<close> keep the roster within capacity, and a successful join
  stores the status \<open>open\<close>.
\<close>

lemma joinGame_keeps_capacity:
  assumes "db gameId = Some game" and "countsHost game" and "withinCapacity game"
    and "snd (joinGame now db gameId uid) gameId = Some game'"
  shows "withinCapacity game' \<and> countsHost game'"
  using assms
  by (auto simp: joinGame_def countsHost_def withinCapacity_def Let_def split: if_splits)

lemma respondToJoinRequest_keeps_capacity:
  assumes "db gameId = Some game" and "countsHost game" and "withinCapacity game"
    and "snd (respondToJoinRequest db gameId host uid approve) gameId = Some game'"
  shows "withinCapacity game' \<and> countsHost game'"
  using assms
  by (auto simp: respondToJoinRequest_def countsHost_def withinCapacity_def Let_def
      split: if_splits)

lemma joinGame_stays_open:
  assumes "db gameId = Some game" and "countsHost game"
    and "success (fst (joinGame now db gameId uid))"
    and "snd (joinGame now db gameId uid) gameId = Some game'"
  shows "status game' = Open"
  using assms
  by (auto simp: joinGame_def countsHost_def failed_def Let_def split: if_splits)

text \<open>
  C1. The capacity invariant \<open>len(confirmedPlayers) \<le> maxPlayers - 1\<close> does not
  survive \<open>acceptRequest\<close>, which appends without looking at the count (its sibling
  \<open>respondToJoinRequest\<close> refuses with "Game is full"). On a game of two seats with a
  request from \<open>b\<close> waiting, \<open>a\<close> joins, which fills the game within the
  invariant; accepting \<open>b\<close> then succeeds and leaves two confirmed players beside
  the host.
\<close>

theorem acceptRequest_exceeds_capacity:
  "withinCapacity requestedGame
   \<and> joinGame ''t1'' (oneGame requestedGame) ''g1'' ''a''
       = (succeeded ''Successfully joined the game'',
          oneGame (requestedGame\<lparr>confirmedPlayers := [''a''], currentPlayers := 2\<rparr>))
   \<and> withinCapacity (requestedGame\<lparr>confirmedPlayers := [''a''], currentPlayers := 2\<rparr>)
   \<and> acceptRequest (oneGame (requestedGame\<lparr>confirmedPlayers := [''a''], currentPlayers := 2\<rparr>))
         ''g1'' ''b''
       = (succeeded ''Player request accepted'',
          oneGame (requestedGame\<lparr>confirmedPlayers := [''a'', ''b''], currentPlayers := 3,
                                 joinRequests := []\<rparr>))
   \<and> \<not> withinCapacity (requestedGame\<lparr>confirmedPlayers := [''a'', ''b''], currentPlayers := 3,
                                 joinRequests := []\<rparr>)"
  by (simp add: game_ops sample_defs splice1_def withinCapacity_def)

text \<open>
  C2. The status does not become \<open>full\<close> when the count with the host reaches
  \<open>maxPlayers\<close>: \<open>joinGame\<close> compares the roster without the host against
  \<open>maxPlayers\<close>, while it stores \<open>currentPlayers\<close> with the host. On a game of
  three seats holding the host and \<open>a\<close>, \<open>b\<close> joins: \<open>currentPlayers\<close> is 3
  and the status is still \<open>open\<close>; the next join is refused with "Game is full",
  not with "Game is not open for joining".
\<close>

theorem joinGame_reaches_capacity_still_open:
  "joinGame ''t1'' (oneGame almostFullGame) ''g1'' ''b''
     = (succeeded ''Successfully joined the game'',
        oneGame (almostFullGame\<lparr>confirmedPlayers := [''a'', ''b''], currentPlayers := 3\<rparr>))
   \<and> maxPlayers almostFullGame = 3
   \<and> status (almostFullGame\<lparr>confirmedPlayers := [''a'', ''b''], currentPlayers := 3\<rparr>) = Open
   \<and> joinGame ''t2'' (oneGame (almostFullGame\<lparr>confirmedPlayers := [''a'', ''b''],
                                   currentPlayers := 3\<rparr>)) ''g1'' ''c''
     = (failed ''Game is full'',
        oneGame (almostFullGame\<lparr>confirmedPlayers := [''a'', ''b''], currentPlayers := 3\<rparr>))"
  by (simp add: game_ops sample_defs)

section \<open>The host as a player\<close>

text \<open>
  C7. \<open>joinGame\<close> does not compare the user with \<open>hostId\<close>: the host joins the
  own public game as a confirmed player, and is queued in \<open>joinRequests\<close> of the own
  private game. \<open>createJoinRequest\<close> on the same game refuses the host.
\<close>

theorem joinGame_admits_host:
  "hostId sampleGame = ''host''
   \<and> joinGame ''t1'' (oneGame sampleGame) ''g1'' ''host''
       = (succeeded ''Successfully joined the game'',
          oneGame (sampleGame\<lparr>confirmedPlayers := [''host''], currentPlayers := 2\<rparr>))
   \<and> joinGame ''t1'' (oneGame privateGame) ''g1'' ''host''
       = (succeeded ''Join request sent to game host'',
          oneGame (privateGame\<lparr>joinRequests := [pendingRequest ''host'' ''t1'']\<rparr>))
   \<and> createJoinRequest ''t1'' (oneGame privateGame) ''g1'' ''host''
       = (failed ''You cannot join your own game'', oneGame privateGame)"
  by (simp add: game_ops sample_defs)

section \<open>Games that are not open\<close>

text \<open>
  C3, as stated, fails: on a completed game \<open>leaveGame\<close> and an approving
  \<open>respondToJoinRequest\<close> succeed (and store the status \<open>open\<close>), and on a cancelled
  game \<open>DELETE /:id\<close> and \<open>PUT /:id\<close> succeed.
\<close>

theorem closed_game_counterexample:
  "status finishedGame = Completed
   \<and> leaveGame (oneGame finishedGame) ''g1'' ''a''
       = (succeeded ''Successfully left the game'',
          oneGame (finishedGame\<lparr>confirmedPlayers := [], currentPlayers := 1, status := Open\<rparr>))
   \<and> respondToJoinRequest (oneGame finishedGame) ''g1'' ''host'' ''b'' True
       = (succeeded ''Player approved and added to the game'',
          oneGame (finishedGame\<lparr>joinRequests := [], confirmedPlayers := [''a'', ''b''],
                                currentPlayers := 3, status := Open\<rparr>))
   \<and> deleteGame (oneGame (sampleGame\<lparr>status := Cancelled\<rparr>)) ''g1'' ''host'' User
       = (\<lparr>httpStatus = 200, ok = True, bodyText = ''Game cancelled successfully''\<rparr>,
          oneGame (sampleGame\<lparr>status := Cancelled\<rparr>))
   \<and> putGame (oneGame (sampleGame\<lparr>status := Cancelled\<rparr>)) ''g1'' ''host'' User
         (noUpdates\<lparr>u_maxPlayers := Some 10\<rparr>)
       = (\<lparr>httpStatus = 200, ok = True, bodyText = ''Game updated successfully''\<rparr>,
          oneGame (sampleGame\<lparr>status := Cancelled, maxPlayers := 10\<rparr>))"
  by (simp add: game_ops sample_defs putGame_def deleteGame_def update_def updateFields_def
      noUpdates_def ifTruthy_def ifDefined_def)

lemma joinGame_not_open:
  assumes "db gameId = Some game" and "status game \<noteq> Open"
  shows "joinGame now db gameId uid = (failed ''Game is not open for joining'', db)"
  using assms by (simp add: joinGame_def)

lemma joinGame_success_open:
  assumes "db gameId = Some game" and "success (fst (joinGame now db gameId uid))"
  shows "status game = Open \<and> currentPlayers game < maxPlayers game"
  using assms by (auto simp: joinGame_def failed_def split: if_splits)

lemma respond_success_capacity:
  assumes "db gameId = Some game"
    and "success (fst (respondToJoinRequest db gameId host uid True))"
  shows "currentPlayers game < maxPlayers game"
  using assms by (auto simp: respondToJoinRequest_def failed_def Let_def split: if_splits)

lemma putGame_started:
  assumes "db gameId = Some game" and "status game = In_progress \<or> status game = Completed"
  shows "snd (putGame db gameId reqUser reqRole body) = db
       \<and> \<not> ok (fst (putGame db gameId reqUser reqRole body))
       \<and> (hostId game = reqUser \<or> reqRole = Admin \<longrightarrow>
            fst (putGame db gameId reqUser reqRole body)
              = \<lparr>httpStatus = 400, ok = False,
                  bodyText = ''Cannot update game that has started or completed''\<rparr>)"
  using assms by (auto simp: putGame_def)

lemma deleteGame_started:
  assumes "db gameId = Some game" and "status game = In_progress \<or> status game = Completed"
  shows "snd (deleteGame db gameId reqUser reqRole) = db
       \<and> \<not> ok (fst (deleteGame db gameId reqUser reqRole))
       \<and> (hostId game = reqUser \<or> reqRole = Admin \<longrightarrow>
            fst (deleteGame db gameId reqUser reqRole)
              = \<lparr>httpStatus = 400, ok = False,
                  bodyText = ''Cannot cancel game that has started or completed''\<rparr>)"
  using assms by (auto simp: deleteGame_def)

text \<open>
  C3, as the code has it. A game that is not \<open>open\<close> refuses \<open>joinGame\<close> with
  "Game is not open for joining" and is left as it was. A game that is \<open>in_progress\<close>
  or \<open>completed\<close> refuses \<open>PUT /:id\<close> and \<open>DELETE /:id\<close> and is left as it was;
  for the host or an admin the refusal is "Cannot update (cancel) game that has started
  or completed". A join succeeds only on an \<open>open\<close> game with
  \<open>currentPlayers < maxPlayers\<close>, an approval only with \<open>currentPlayers < maxPlayers\<close>.
\<close>

theorem closed_game_gates:
  assumes "db gameId = Some game"
  shows "(status game \<noteq> Open \<longrightarrow>
            joinGame now db gameId uid = (failed ''Game is not open for joining'', db))
       \<and> (status game = In_progress \<or> status game = Completed \<longrightarrow>
            snd (putGame db gameId reqUser reqRole body) = db
            \<and> \<not> ok (fst (putGame db gameId reqUser reqRole body))
            \<and> snd (deleteGame db gameId reqUser reqRole) = db
            \<and> \<not> ok (fst (deleteGame db gameId reqUser reqRole))
            \<and> (hostId game = reqUser \<or> reqRole = Admin \<longrightarrow>
                 fst (putGame db gameId reqUser reqRole body)
                   = \<lparr>httpStatus = 400, ok = False,
                       bodyText = ''Cannot update game that has started or completed''\<rparr>
                 \<and> fst (deleteGame db gameId reqUser reqRole)
                   = \<lparr>httpStatus = 400, ok = False,
                       bodyText = ''Cannot cancel game that has started or completed''\<rparr>))
       \<and> (success (fst (joinGame now db gameId uid)) \<longrightarrow>
            status game = Open \<and> currentPlayers game < maxPlayers game)
       \<and> (success (fst (respondToJoinRequest db gameId host target True)) \<longrightarrow>
            currentPlayers game < maxPlayers game)"
proof -
  note j1 = joinGame_not_open [where db = db and gameId = gameId and game = game]
  note j2 = joinGame_success_open [where db = db and gameId = gameId and game = game]
  note r = respond_success_capacity [where db = db and gameId = gameId and game = game]
  note p = putGame_started [where db = db and gameId = gameId and game = game]
  note d = deleteGame_started [where db = db and gameId = gameId and game = game]
  show ?thesis
    using assms j1 [of now uid] j2 [of now uid] r [of host target] p [of reqUser reqRole body]
      d [of reqUser reqRole]
    by blast
qed

theorem closed_game_gates_witness:
  "status finishedGame \<noteq> Open
   \<and> joinGame ''t1'' (oneGame finishedGame) ''g1'' ''c''
       = (failed ''Game is not open for joining'', oneGame finishedGame)
   \<and> status finishedGame = Completed
   \<and> hostId finishedGame = ''host''
   \<and> putGame (oneGame finishedGame) ''g1'' ''host'' User (noUpdates\<lparr>u_maxPlayers := Some 10\<rparr>)
       = (\<lparr>httpStatus = 400, ok = False,
            bodyText = ''Cannot update game that has started or completed''\<rparr>,
          oneGame finishedGame)
   \<and> deleteGame (oneGame finishedGame) ''g1'' ''host'' User
       = (\<lparr>httpStatus = 400, ok = False,
            bodyText = ''Cannot cancel game that has started or completed''\<rparr>,
          oneGame finishedGame)
   \<and> success (fst (joinGame ''t1'' (oneGame requestedGame) ''g1'' ''a''))
   \<and> success (fst (respondToJoinRequest (oneGame requestedGame) ''g1'' ''host'' ''b'' True))
   \<and> status requestedGame = Open
   \<and> currentPlayers requestedGame < maxPlayers requestedGame"
proof -
  have closed: "oneGame finishedGame ''g1'' = Some finishedGame"
    and opened: "oneGame requestedGame ''g1'' = Some requestedGame"
    by (simp_all add: oneGame_def)
  have st: "status finishedGame \<noteq> Open" "status finishedGame = Completed"
      "hostId finishedGame = ''host''"
    by (simp_all add: sample_defs)
  have ok1: "success (fst (joinGame ''t1'' (oneGame requestedGame) ''g1'' ''a''))"
    by (simp add: game_ops sample_defs)
  have ok2: "success (fst (respondToJoinRequest (oneGame requestedGame) ''g1'' ''host'' ''b'' True))"
    by (simp add: game_ops sample_defs)
  note a = closed_game_gates [where db = "oneGame finishedGame" and gameId = "''g1''"
      and game = finishedGame and now = "''t1''" and uid = "''c''" and reqUser = "''host''"
      and reqRole = User and body = "noUpdates\<lparr>u_maxPlayers := Some 10\<rparr>", OF closed]
  note b = closed_game_gates [where db = "oneGame requestedGame" and gameId = "''g1''"
      and game = requestedGame and now = "''t1''" and uid = "''a''" and host = "''host''"
      and target = "''b''", OF opened]
  show ?thesis
    using a b st ok1 ok2 by (auto simp: prod_eq_iff)
qed

section \<open>The clock\<close>










section \<open>The cached player count\<close>

lemma joinGame_public_counts:
  assumes "db gameId = Some game" and "success (fst (joinGame now db gameId uid))"
    and "\<not> isPrivate game"
  shows "\<exists>g'. snd (joinGame now db gameId uid) gameId = Some g' \<and> countsHost g'"
  using assms
  by (auto simp: joinGame_def failed_def countsHost_def Let_def split: if_splits)

lemma joinGame_private_keeps:
  assumes "db gameId = Some game" and "success (fst (joinGame now db gameId uid))"
    and "isPrivate game"
  shows "\<exists>g'. snd (joinGame now db gameId uid) gameId = Some g'
           \<and> currentPlayers g' = currentPlayers game
           \<and> confirmedPlayers g' = confirmedPlayers game"
  using assms
  by (auto simp: joinGame_def failed_def Let_def split: if_splits)

lemma leaveGame_counts:
  assumes "db gameId = Some game" and "success (fst (leaveGame db gameId uid))"
  shows "\<exists>g'. snd (leaveGame db gameId uid) gameId = Some g' \<and> countsHost g'"
  using assms
  by (auto simp: leaveGame_def failed_def countsHost_def Let_def split: if_splits)

lemma acceptRequest_counts:
  assumes "db gameId = Some game" and "success (fst (acceptRequest db gameId uid))"
  shows "\<exists>g'. snd (acceptRequest db gameId uid) gameId = Some g' \<and> countsHost g'"
  using assms
  by (auto simp: acceptRequest_def failed_def countsHost_def Let_def split: option.splits)

lemma respond_approve_counts:
  assumes "db gameId = Some game"
    and "success (fst (respondToJoinRequest db gameId host uid True))"
  shows "\<exists>g'. snd (respondToJoinRequest db gameId host uid True) gameId = Some g' \<and> countsHost g'"
  using assms
  by (auto simp: respondToJoinRequest_def failed_def countsHost_def Let_def split: if_splits)

lemma respond_decline_keeps:
  assumes "db gameId = Some game"
  shows "\<exists>g'. snd (respondToJoinRequest db gameId host uid False) gameId = Some g'
           \<and> currentPlayers g' = currentPlayers game
           \<and> confirmedPlayers g' = confirmedPlayers game"
  using assms by (auto simp: respondToJoinRequest_def Let_def)

lemma rejectRequest_keeps:
  assumes "db gameId = Some game"
  shows "\<exists>g'. snd (rejectRequest db gameId uid) gameId = Some g'
           \<and> currentPlayers g' = currentPlayers game
           \<and> confirmedPlayers g' = confirmedPlayers game"
  using assms by (auto simp: rejectRequest_def split: option.splits)

text \<open>
  C10. After a successful \<open>joinGame\<close> on a public game, \<open>leaveGame\<close>,
  \<open>acceptRequest\<close> and approving \<open>respondToJoinRequest\<close>, the stored
  \<open>currentPlayers\<close> is \<open>len(confirmedPlayers) + 1\<close>. A join on a private game, a
  declining \<open>respondToJoinRequest\<close> and \<open>rejectRequest\<close> leave \<open>currentPlayers\<close>
  and \<open>confirmedPlayers\<close> as they were.
\<close>

theorem currentPlayers_counts_host:
  assumes "db gameId = Some game"
  shows "(success (fst (joinGame now db gameId uid)) \<and> \<not> isPrivate game \<longrightarrow>
            (\<exists>g'. snd (joinGame now db gameId uid) gameId = Some g' \<and> countsHost g'))
       \<and> (success (fst (leaveGame db gameId uid)) \<longrightarrow>
            (\<exists>g'. snd (leaveGame db gameId uid) gameId = Some g' \<and> countsHost g'))
       \<and> (success (fst (acceptRequest db gameId uid)) \<longrightarrow>
            (\<exists>g'. snd (acceptRequest db gameId uid) gameId = Some g' \<and> countsHost g'))
       \<and> (success (fst (respondToJoinRequest db gameId host uid True)) \<longrightarrow>
            (\<exists>g'. snd (respondToJoinRequest db gameId host uid True) gameId = Some g'
                  \<and> countsHost g'))
       \<and> (success (fst (joinGame now db gameId uid)) \<and> isPrivate game \<longrightarrow>
            (\<exists>g'. snd (joinGame now db gameId uid) gameId = Some g'
                  \<and> currentPlayers g' = currentPlayers game
                  \<and> confirmedPlayers g' = confirmedPlayers game))
       \<and> (\<exists>g'. snd (respondToJoinRequest db gameId host uid False) gameId = Some g'
                  \<and> currentPlayers g' = currentPlayers game
                  \<and> confirmedPlayers g' = confirmedPlayers game)
       \<and> (\<exists>g'. snd (rejectRequest db gameId uid) gameId = Some g'
                  \<and> currentPlayers g' = currentPlayers game
                  \<and> confirmedPlayers g' = confirmedPlayers game)"
proof -
  note a = joinGame_public_counts [where db = db and gameId = gameId and game = game
      and now = now and uid = uid]
  note b = leaveGame_counts [where db = db and gameId = gameId and game = game and uid = uid]
  note c = acceptRequest_counts [where db = db and gameId = gameId and game = game and uid = uid]
  note d = respond_approve_counts [where db = db and gameId = gameId and game = game
      and host = host and uid = uid]
  note e = joinGame_private_keeps [where db = db and gameId = gameId and game = game
      and now = now and uid = uid]
  note f = respond_decline_keeps [where db = db and gameId = gameId and game = game
      and host = host and uid = uid]
  note g = rejectRequest_keeps [where db = db and gameId = gameId and game = game and uid = uid]
  show ?thesis
    using assms a b c d e f g by blast
qed

theorem currentPlayers_counts_host_witness:
  "success (fst (joinGame ''t1'' (oneGame requestedGame) ''g1'' ''a''))
   \<and> \<not> isPrivate requestedGame
   \<and> map_option currentPlayers (snd (joinGame ''t1'' (oneGame requestedGame) ''g1'' ''a'') ''g1'')
       = Some 2
   \<and> map_option confirmedPlayers (snd (joinGame ''t1'' (oneGame requestedGame) ''g1'' ''a'') ''g1'')
       = Some [''a'']
   \<and> success (fst (leaveGame (oneGame finishedGame) ''g1'' ''a''))
   \<and> (\<exists>g'. snd (leaveGame (oneGame finishedGame) ''g1'' ''a'') ''g1'' = Some g' \<and> countsHost g')
   \<and> success (fst (acceptRequest (oneGame requestedGame) ''g1'' ''b''))
   \<and> (\<exists>g'. snd (acceptRequest (oneGame requestedGame) ''g1'' ''b'') ''g1'' = Some g'
          \<and> countsHost g')
   \<and> success (fst (respondToJoinRequest (oneGame requestedGame) ''g1'' ''host'' ''b'' True))
   \<and> (\<exists>g'. snd (respondToJoinRequest (oneGame requestedGame) ''g1'' ''host'' ''b'' True) ''g1''
            = Some g' \<and> countsHost g')
   \<and> success (fst (joinGame ''t1'' (oneGame privateGame) ''g1'' ''a''))
   \<and> isPrivate privateGame
   \<and> (\<exists>g'. snd (joinGame ''t1'' (oneGame privateGame) ''g1'' ''a'') ''g1'' = Some g'
          \<and> currentPlayers g' = currentPlayers privateGame
          \<and> confirmedPlayers g' = confirmedPlayers privateGame)"
proof -
  have look: "oneGame requestedGame ''g1'' = Some requestedGame"
      "oneGame finishedGame ''g1'' = Some finishedGame"
      "oneGame privateGame ''g1'' = Some privateGame"
    by (simp_all add: oneGame_def)
  have kinds: "\<not> isPrivate requestedGame" "isPrivate privateGame"
    by (simp_all add: sample_defs)
  have ok: "success (fst (joinGame ''t1'' (oneGame requestedGame) ''g1'' ''a''))"
      "success (fst (leaveGame (oneGame finishedGame) ''g1'' ''a''))"
      "success (fst (acceptRequest (oneGame requestedGame) ''g1'' ''b''))"
      "success (fst (respondToJoinRequest (oneGame requestedGame) ''g1'' ''host'' ''b'' True))"
      "success (fst (joinGame ''t1'' (oneGame privateGame) ''g1'' ''a''))"
    by (simp_all add: game_ops sample_defs)
  have vals: "map_option currentPlayers
        (snd (joinGame ''t1'' (oneGame requestedGame) ''g1'' ''a'') ''g1'') = Some 2"
      "map_option confirmedPlayers
        (snd (joinGame ''t1'' (oneGame requestedGame) ''g1'' ''a'') ''g1'') = Some [''a'']"
    by (simp_all add: game_ops sample_defs)
  note a = currentPlayers_counts_host [where db = "oneGame requestedGame" and gameId = "''g1''"
      and game = requestedGame and now = "''t1''" and uid = "''a''" and host = "''host''",
      OF look(1)]
  note b = currentPlayers_counts_host [where db = "oneGame finishedGame" and gameId = "''g1''"
      and game = finishedGame and now = "''t1''" and uid = "''a''" and host = "''host''",
      OF look(2)]
  note c = currentPlayers_counts_host [where db = "oneGame requestedGame" and gameId = "''g1''"
      and game = requestedGame and now = "''t1''" and uid = "''b''" and host = "''host''",
      OF look(1)]
  note d = currentPlayers_counts_host [where db = "oneGame privateGame" and gameId = "''g1''"
      and game = privateGame and now = "''t1''" and uid = "''a''" and host = "''host''",
      OF look(3)]
  have left: "\<exists>g'. snd (leaveGame (oneGame finishedGame) ''g1'' ''a'') ''g1'' = Some g'
      \<and> countsHost g'"
    using b ok(2) by (elim conjE) (rule mp)
  have accepted: "\<exists>g'. snd (acceptRequest (oneGame requestedGame) ''g1'' ''b'') ''g1'' = Some g'
      \<and> countsHost g'"
    using c ok(3) by (elim conjE) (rule mp)
  have approved: "\<exists>g'. snd (respondToJoinRequest (oneGame requestedGame) ''g1'' ''host'' ''b'' True)
      ''g1'' = Some g' \<and> countsHost g'"
    using c ok(4) by (elim conjE) (rule mp)
  have queued: "\<exists>g'. snd (joinGame ''t1'' (oneGame privateGame) ''g1'' ''a'') ''g1'' = Some g'
      \<and> currentPlayers g' = currentPlayers privateGame
      \<and> confirmedPlayers g' = confirmedPlayers privateGame"
    using d ok(5) kinds(2) by (elim conjE) (rule mp, assumption, rule conjI)
  show ?thesis
    using a kinds ok vals left accepted approved queued by (intro conjI) assumption+
qed


section \<open>Availability of a time interval\<close>

text \<open>
  C4, as stated, fails on a table that holds a booking whose end is not after its
  start. Nothing rejects one: \<open>POST /\<close> stores the request 14:00-13:00 as a pending
  booking. The third disjunct of the query then counts it against the request
  13:30-14:30, which it does not overlap (\<open>13:30 < 13:00\<close> is false).
\<close>

theorem checkAvailability_counterexample:
  "postBooking sampleGetDay ''b1'' sampleTurfs [] ''u1'' (sampleRequest ''14:00'' ''13:00'')
     = (\<lparr>httpStatus = 201, ok = True, bodyText = ''Booking created successfully''\<rparr>,
        [(sampleBooking ''b1'' ''14:00'' ''13:00'' Booking_pending)\<lparr>total_amount := - 1000\<rparr>])
   \<and> checkAvailability
        [(sampleBooking ''b1'' ''14:00'' ''13:00'' Booking_pending)\<lparr>total_amount := - 1000\<rparr>]
        ''turf1'' ''2025-09-07'' ''13:30'' ''14:30'' None = False
   \<and> \<not> (''13:30'' < ''13:00'' \<and> ''14:00'' < ''14:30'')"
  by (simp add: booking_defs postBooking_def bookingCreateSchema_def checkAvailability_def
      computeTotalAmount_def hourlyRate_def isWeekend_def isDigit_def digitValue_def activeOn_def)

lemma no_row_conv:
  "(length (filter P xs) = 0) = (\<not> (\<exists>x \<in> set xs. P x))"
  by (simp add: filter_empty_conv)

lemma sqlite_condition_is_overlap:
  fixes startT endT :: string
  assumes "startT < endT" and "c < d"
  shows "((c < endT \<and> d > startT) \<or> (c < startT \<and> d > endT) \<or> (c \<ge> startT \<and> c < endT))
           = overlaps startT endT c d"
  using assms unfolding overlaps_def by auto

lemma supabase_condition_is_overlap:
  fixes startT endT :: string
  assumes "startT < endT" and "c < d"
  shows "((c \<le> startT \<and> d > startT) \<or> (c < endT \<and> d \<ge> endT) \<or> (c \<ge> startT \<and> d \<le> endT))
           = overlaps startT endT c d"
  using assms unfolding overlaps_def by auto

lemma checkAvailability_sqlite:
  assumes req: "startT < endT"
    and wf: "\<forall>row \<in> set rows. activeOn turf d row \<longrightarrow> start_time row < end_time row"
    and ex: "excludeBookingId \<noteq> Some []"
  shows "checkAvailability rows turf d startT endT excludeBookingId =
     (\<not> (\<exists>row \<in> set rows. activeOn turf d row \<and> Some (booking_id row) \<noteq> excludeBookingId
           \<and> overlaps startT endT (start_time row) (end_time row)))"
proof -
  have excl: "(case excludeBookingId of None \<Rightarrow> True
               | Some x \<Rightarrow> if x \<noteq> [] then booking_id row \<noteq> x else True)
             = (Some (booking_id row) \<noteq> excludeBookingId)" for row
    using ex by (cases excludeBookingId) auto
  have cond: "activeOn turf d row \<Longrightarrow>
      ((start_time row < endT \<and> end_time row > startT) \<or>
       (start_time row < startT \<and> end_time row > endT) \<or>
       (start_time row \<ge> startT \<and> start_time row < endT))
      = overlaps startT endT (start_time row) (end_time row)" if "row \<in> set rows" for row
    using sqlite_condition_is_overlap [OF req] wf that by blast
  show ?thesis
    unfolding checkAvailability_def Let_def no_row_conv excl
    using cond by blast
qed

lemma checkAvailability_pg:
  assumes req: "startT < endT"
    and wf: "\<forall>row \<in> set rows. activeOn turf d row \<longrightarrow> start_time row < end_time row"
  shows "checkAvailability_supabase rows turf d startT endT =
     (\<not> (\<exists>row \<in> set rows. activeOn turf d row
           \<and> overlaps startT endT (start_time row) (end_time row)))"
proof -
  have cond: "activeOn turf d row \<Longrightarrow>
      ((start_time row \<le> startT \<and> end_time row > startT) \<or>
       (start_time row < endT \<and> end_time row \<ge> endT) \<or>
       (start_time row \<ge> startT \<and> end_time row \<le> endT))
      = overlaps startT endT (start_time row) (end_time row)" if "row \<in> set rows" for row
    using supabase_condition_is_overlap [OF req] wf that by blast
  show ?thesis
    unfolding checkAvailability_supabase_def findConflictingBookings_def no_row_conv
    using cond by blast
qed

text \<open>
  C4, as the code has it. When the request has \<open>startTime < endTime\<close> and every
  pending or confirmed booking of the turf and date starts before it ends,
  \<open>checkAvailability\<close> is true exactly when no such booking, other than the excluded
  one, has \<open>startTime < end_time\<close> and \<open>start_time < endTime\<close>; the Supabase model,
  which excludes nothing, agrees. Bookings that end by the start of the request or
  start at its end or later do not conflict.
\<close>

theorem checkAvailability_iff_no_overlap:
  assumes "startT < endT"
    and "\<forall>row \<in> set rows. activeOn turf d row \<longrightarrow> start_time row < end_time row"
    and "excludeBookingId \<noteq> Some []"
  shows "checkAvailability rows turf d startT endT excludeBookingId =
           (\<not> (\<exists>row \<in> set rows. activeOn turf d row
                  \<and> Some (booking_id row) \<noteq> excludeBookingId
                  \<and> overlaps startT endT (start_time row) (end_time row)))
       \<and> checkAvailability_supabase rows turf d startT endT =
           (\<not> (\<exists>row \<in> set rows. activeOn turf d row
                  \<and> overlaps startT endT (start_time row) (end_time row)))
       \<and> ((\<forall>row \<in> set rows. activeOn turf d row \<longrightarrow>
               end_time row \<le> startT \<or> endT \<le> start_time row)
            \<longrightarrow> checkAvailability rows turf d startT endT excludeBookingId)"
proof -
  note a = checkAvailability_sqlite [OF assms]
  note b = checkAvailability_pg [OF assms(1,2)]
  have "checkAvailability rows turf d startT endT excludeBookingId"
    if "\<forall>row \<in> set rows. activeOn turf d row \<longrightarrow>
          end_time row \<le> startT \<or> endT \<le> start_time row"
    unfolding a using that by (auto simp: overlaps_def)
  with a b show ?thesis by blast
qed

theorem checkAvailability_iff_no_overlap_witness:
  "''13:30'' < ''14:30''
   \<and> start_time (sampleBooking ''b1'' ''14:00'' ''15:00'' Booking_confirmed)
       < end_time (sampleBooking ''b1'' ''14:00'' ''15:00'' Booking_confirmed)
   \<and> \<not> checkAvailability [sampleBooking ''b1'' ''14:00'' ''15:00'' Booking_confirmed]
          ''turf1'' ''2025-09-07'' ''13:30'' ''14:30'' None
   \<and> \<not> checkAvailability_supabase [sampleBooking ''b1'' ''14:00'' ''15:00'' Booking_confirmed]
          ''turf1'' ''2025-09-07'' ''13:30'' ''14:30''
   \<and> ''15:00'' < ''16:00''
   \<and> checkAvailability [sampleBooking ''b1'' ''14:00'' ''15:00'' Booking_confirmed]
          ''turf1'' ''2025-09-07'' ''15:00'' ''16:00'' None
   \<and> checkAvailability_supabase [sampleBooking ''b1'' ''14:00'' ''15:00'' Booking_confirmed]
          ''turf1'' ''2025-09-07'' ''15:00'' ''16:00''"
proof -
  let ?rows = "[sampleBooking ''b1'' ''14:00'' ''15:00'' Booking_confirmed]"
  have req1: "''13:30'' < ''14:30''" and req2: "''15:00'' < ''16:00''" by simp_all
  have wf: "\<forall>row \<in> set ?rows. activeOn ''turf1'' ''2025-09-07'' row
              \<longrightarrow> start_time row < end_time row"
    by (simp add: sampleBooking_def)
  have ex: "(None :: string option) \<noteq> Some []" by simp
  note a = checkAvailability_iff_no_overlap [OF req1 wf ex]
  note b = checkAvailability_iff_no_overlap [OF req2 wf ex]
  have a1: "\<not> checkAvailability ?rows ''turf1'' ''2025-09-07'' ''13:30'' ''14:30'' None"
    using a by (simp add: sampleBooking_def activeOn_def overlaps_def)
  have a2: "\<not> checkAvailability_supabase ?rows ''turf1'' ''2025-09-07'' ''13:30'' ''14:30''"
    using a by (simp add: sampleBooking_def activeOn_def overlaps_def)
  have b1: "checkAvailability ?rows ''turf1'' ''2025-09-07'' ''15:00'' ''16:00'' None"
    using b by (simp add: sampleBooking_def activeOn_def overlaps_def)
  have b2: "checkAvailability_supabase ?rows ''turf1'' ''2025-09-07'' ''15:00'' ''16:00''"
    using b by (simp add: sampleBooking_def activeOn_def overlaps_def)
  have wf1: "start_time (sampleBooking ''b1'' ''14:00'' ''15:00'' Booking_confirmed)
       < end_time (sampleBooking ''b1'' ''14:00'' ''15:00'' Booking_confirmed)"
    by (simp add: sampleBooking_def)
  show ?thesis
    using req1 req2 wf1 a1 a2 b1 b2 by (intro conjI) assumption+
qed

section \<open>Free slots of a day\<close>

lemma generateTimeSlots_day:
  "generateTimeSlots ''06:00'' ''23:00'' 60 = Some
    [''06:00 - 07:00'', ''07:00 - 08:00'', ''08:00 - 09:00'', ''09:00 - 10:00'',
     ''10:00 - 11:00'', ''11:00 - 12:00'', ''12:00 - 13:00'', ''13:00 - 14:00'',
     ''14:00 - 15:00'', ''15:00 - 16:00'', ''16:00 - 17:00'', ''17:00 - 18:00'',
     ''18:00 - 19:00'', ''19:00 - 20:00'', ''20:00 - 21:00'', ''21:00 - 22:00'',
     ''22:00 - 23:00'']"
  by code_simp

lemma slots_with_half_hour_booking:
  "getAvailableSlots [sampleBooking ''b1'' ''14:30'' ''15:30'' Booking_confirmed]
       ''turf1'' ''2025-09-07''
     = Some
        [''06:00 - 07:00'', ''07:00 - 08:00'', ''08:00 - 09:00'', ''09:00 - 10:00'',
         ''10:00 - 11:00'', ''11:00 - 12:00'', ''12:00 - 13:00'', ''13:00 - 14:00'',
         ''14:00 - 15:00'', ''16:00 - 17:00'', ''17:00 - 18:00'', ''18:00 - 19:00'',
         ''19:00 - 20:00'', ''20:00 - 21:00'', ''21:00 - 22:00'', ''22:00 - 23:00'']"
  by (simp add: getAvailableSlots_def generateTimeSlots_day sampleBooking_def activeOn_def)

lemma overlapping_slot_not_bookable:
  "postBooking sampleGetDay ''b2'' sampleTurfs
        [sampleBooking ''b1'' ''14:30'' ''15:30'' Booking_confirmed] ''u1''
        (sampleRequest ''14:00'' ''15:00'')
     = (\<lparr>httpStatus = 409, ok = False, bodyText = ''Time slot not available''\<rparr>,
        [sampleBooking ''b1'' ''14:30'' ''15:30'' Booking_confirmed])"
  by (simp add: booking_defs postBooking_def bookingCreateSchema_def checkAvailability_def
      isDigit_def activeOn_def)

lemma half_hour_booking_overlaps: "overlaps ''14:00'' ''15:00'' ''14:30'' ''15:30''"
  by (simp add: overlaps_def)

lemma supabase_slots_with_half_hour_booking:
  "(''14:00'', ''15:00'') \<notin> set (getAvailableSlots_supabase
      [sampleBooking ''b1'' ''14:30'' ''15:30'' Booking_confirmed] ''turf1'' ''2025-09-07'')"
  by code_simp

text \<open>
  C5. \<open>getAvailableSlots\<close> of the SQLite model drops a slot only when the slot's
  start lies inside a booking. With the confirmed booking 14:30-15:30 it returns the
  slot 14:00-15:00, which overlaps the booking; the Supabase model, which tests the
  three ways of overlapping, does not return it. \<open>POST /\<close> refuses to book the
  returned slot, so the table and the slots of the day stay as they are.
\<close>

theorem getAvailableSlots_keeps_overlapping_slot:
  "getAvailableSlots [sampleBooking ''b1'' ''14:30'' ''15:30'' Booking_confirmed]
       ''turf1'' ''2025-09-07''
     = Some
        [''06:00 - 07:00'', ''07:00 - 08:00'', ''08:00 - 09:00'', ''09:00 - 10:00'',
         ''10:00 - 11:00'', ''11:00 - 12:00'', ''12:00 - 13:00'', ''13:00 - 14:00'',
         ''14:00 - 15:00'', ''16:00 - 17:00'', ''17:00 - 18:00'', ''18:00 - 19:00'',
         ''19:00 - 20:00'', ''20:00 - 21:00'', ''21:00 - 22:00'', ''22:00 - 23:00'']
   \<and> overlaps ''14:00'' ''15:00'' ''14:30'' ''15:30''
   \<and> (''14:00'', ''15:00'') \<notin> set (getAvailableSlots_supabase
         [sampleBooking ''b1'' ''14:30'' ''15:30'' Booking_confirmed] ''turf1'' ''2025-09-07'')
   \<and> postBooking sampleGetDay ''b2'' sampleTurfs
        [sampleBooking ''b1'' ''14:30'' ''15:30'' Booking_confirmed] ''u1''
        (sampleRequest ''14:00'' ''15:00'')
     = (\<lparr>httpStatus = 409, ok = False, bodyText = ''Time slot not available''\<rparr>,
        [sampleBooking ''b1'' ''14:30'' ''15:30'' Booking_confirmed])"
  using slots_with_half_hour_booking half_hour_booking_overlaps
    supabase_slots_with_half_hour_booking overlapping_slot_not_bookable
  by (intro conjI)

section \<open>The amount of a booking\<close>





section \<open>Leaving a game one is not part of\<close>

lemma filter_same_length_conv:
  "(length (filter P xs) = length xs) = (\<forall>x \<in> set xs. P x)"
proof
  assume len: "length (filter P xs) = length xs"
  show "\<forall>x \<in> set xs. P x"
  proof
    fix x assume "x \<in> set xs"
    then show "P x"
      using len length_filter_less [of x xs P] by auto
  qed
next
  assume "\<forall>x \<in> set xs. P x"
  then have "filter P xs = xs" by (simp add: filter_id_conv)
  then show "length (filter P xs) = length xs" by simp
qed

text \<open>
  C8. A user who is neither in \<open>confirmedPlayers\<close> nor in \<open>joinRequests\<close> cannot
  leave: \<open>leaveGame\<close> answers "Not part of this game" and writes nothing, and so
  does a second call on the table it returns.
\<close>

theorem leaveGame_non_member_unchanged:
  assumes "db gameId = Some game"
    and "uid \<notin> set (confirmedPlayers game)"
    and "\<not> list_ex (\<lambda>req. userId req = uid) (joinRequests game)"
  shows "leaveGame db gameId uid = (failed ''Not part of this game'', db)
       \<and> leaveGame (snd (leaveGame db gameId uid)) gameId uid
           = (failed ''Not part of this game'', db)"
proof -
  have c: "length (filter (\<lambda>i. i \<noteq> uid) (confirmedPlayers game)) = length (confirmedPlayers game)"
    using assms(2) by (auto simp: filter_same_length_conv)
  have r: "length (filter (\<lambda>req. userId req \<noteq> uid) (joinRequests game)) = length (joinRequests game)"
    using assms(3) by (auto simp: filter_same_length_conv list_ex_iff)
  have first: "leaveGame db gameId uid = (failed ''Not part of this game'', db)"
    using assms(1) c r by (simp add: leaveGame_def)
  then show ?thesis by simp
qed

theorem leaveGame_non_member_unchanged_witness:
  "oneGame sampleGame ''g1'' = Some sampleGame
   \<and> ''u9'' \<notin> set (confirmedPlayers sampleGame)
   \<and> \<not> list_ex (\<lambda>req. userId req = ''u9'') (joinRequests sampleGame)
   \<and> leaveGame (oneGame sampleGame) ''g1'' ''u9''
       = (failed ''Not part of this game'', oneGame sampleGame)
   \<and> leaveGame (snd (leaveGame (oneGame sampleGame) ''g1'' ''u9'')) ''g1'' ''u9''
       = (failed ''Not part of this game'', oneGame sampleGame)"
proof -
  have h1: "oneGame sampleGame ''g1'' = Some sampleGame" by (simp add: oneGame_def)
  have h2: "''u9'' \<notin> set (confirmedPlayers sampleGame)" by (simp add: sampleGame_def)
  have h3: "\<not> list_ex (\<lambda>req. userId req = ''u9'') (joinRequests sampleGame)"
    by (simp add: sampleGame_def)
  show ?thesis
    using h1 h2 h3
      leaveGame_non_member_unchanged [of "oneGame sampleGame" "''g1''" sampleGame "''u9''"]
    by simp
qed

end
